theory Spec2Isabelle
  imports Main
begin

section \<open>Data model\<close>

text \<open>
  The component \<^verbatim>\<open>StaffManager\<close> of \<^verbatim>\<open>src/components/Staff/index.tsx\<close> keeps a
  roster of staff members in React state and updates it with immutable array operations
  (\<^verbatim>\<open>map\<close>, \<^verbatim>\<open>filter\<close>, spread).
\<close>

text \<open>
  Modelled from the spec: the types \<^verbatim>\<open>Staff\<close>, \<^verbatim>\<open>Sale\<close> and \<^verbatim>\<open>Discount\<close> are declared
  in \<^verbatim>\<open>types/staff\<close>, which is not among the sources. The spec gives a member the fields
  \<^verbatim>\<open>id\<close>, \<^verbatim>\<open>name\<close>, \<^verbatim>\<open>code\<close>, "other profile fields", \<^verbatim>\<open>sales\<close> and \<^verbatim>\<open>discounts\<close>; a sale
  an \<^verbatim>\<open>id\<close> and a \<^verbatim>\<open>commissionPaid\<close> flag beside other fields; a discount \<^verbatim>\<open>id\<close>, \<^verbatim>\<open>date\<close>,
  \<^verbatim>\<open>amount\<close>, \<^verbatim>\<open>reason\<close>, \<^verbatim>\<open>status\<close> and an optional \<^verbatim>\<open>cancellationReason\<close>. The fields
  that the spec leaves unnamed are kept as a finite map from property names to values, so
  that an object spread can add or override any of them. Amounts are only stored, never
  computed with; they are integers here.
\<close>

datatype js_value = JString string | JNumber int | JBoolean bool

type_synonym props = "string \<rightharpoonup> js_value"

record Sale =
  sale_id :: string
  commissionPaid :: bool
  sale_props :: props

datatype discount_status = Active | Cancelled

record Discount =
  discount_id :: string
  date :: string
  amount :: int
  reason :: string
  status :: discount_status
  cancellationReason :: "string option"

text \<open>
  \<^verbatim>\<open>Omit<Staff, 'id' | 'sales' | 'discounts'>\<close>, the type of the values a form submits,
  is the base record; \<^verbatim>\<open>Staff\<close> extends it with the three omitted fields.
\<close>

record StaffData =
  name :: string
  code :: string
  profile :: props

record Staff = StaffData +
  staff_id :: string
  sales :: "Sale list"
  discounts :: "Discount list"

section \<open>JavaScript primitives used by the component\<close>

text \<open>
  \<^verbatim>\<open>Date.now().toString()\<close>: the clock is an integer number of milliseconds, rendered in
  decimal, with a leading minus sign when negative.
\<close>

fun decimal :: "nat \<Rightarrow> string" where
  "decimal n =
     (if n < 10 then [char_of (48 + n)]
      else decimal (n div 10) @ [char_of (48 + n mod 10)])"

declare decimal.simps [simp del]

definition toString :: "int \<Rightarrow> string" where
  "toString n = (if n < 0 then CHR ''-'' # decimal (nat (- n)) else decimal (nat n))"

text \<open>
  A state variable of type \<^verbatim>\<open>string | undefined\<close> used as a condition: \<^verbatim>\<open>undefined\<close> and
  the empty string are falsy, every other string is truthy. (A variable of type
  \<^verbatim>\<open>Staff | undefined\<close> is truthy exactly when it is defined: objects are always truthy.)
\<close>

definition truthy :: "string option \<Rightarrow> bool" where
  "truthy v = (case v of None \<Rightarrow> False | Some s \<Rightarrow> s \<noteq> [])"

text \<open>
  What \<^verbatim>\<open>storage.staff.load()\<close> can deliver: the promise is rejected with an error, or
  fulfilled with a value that \<^verbatim>\<open>Array.isArray\<close> inspects.
\<close>

type_synonym js_error = string

datatype loaded_value =
    LUndefined
  | LNull
  | LPrimitive js_value
  | LObject "(string \<times> js_value) list"
  | LArray "Staff list"

datatype load_outcome = Fulfilled loaded_value | Rejected js_error

fun isArray :: "loaded_value \<Rightarrow> bool" where
  "isArray (LArray _) = True"
| "isArray _ = False"

section \<open>Component state and its environment\<close>

datatype console_entry = ConsoleError string js_error

text \<open>
  A call of \<^verbatim>\<open>storage.staff.save\<close> is recorded with the place that issued it. The call
  made by \<^verbatim>\<open>handleDeleteStaff\<close> carries the roster that its \<^verbatim>\<open>catch\<close> closure captured.
\<close>

datatype save_origin = ChangeEffect | AfterDeletion "Staff list" | AfterClearHistory

text \<open>
  The first nine fields are the \<^verbatim>\<open>useState\<close> variables of the component, in the order of
  the source. The others are the environment the component acts on: the console, the
  alerts shown, every call of \<^verbatim>\<open>storage.staff.save\<close> made so far, the calls whose promise is
  not settled yet, whether \<^verbatim>\<open>setStaff\<close> was called since the effects last ran (the
  dependency \<^verbatim>\<open>[staff]\<close> of the save effect), and whether the promise of
  \<^verbatim>\<open>storage.staff.load()\<close> is still to settle.
\<close>

record state =
  staff :: "Staff list"
  showStaffForm :: bool
  editingStaff :: "Staff option"
  selectedStaff :: "Staff option"
  cancellingDiscountId :: "string option"
  discountingStaff :: "Staff option"
  deletingStaffId :: "string option"
  clearingHistoryStaff :: "Staff option"
  deleteError :: string
  console :: "console_entry list"
  alerts :: "string list"
  save_calls :: "(save_origin \<times> Staff list) list"
  inflight :: "(save_origin \<times> Staff list) list"
  staff_changed :: bool
  load_pending :: bool

definition initial :: state where
  "initial =
     \<lparr>staff = [], showStaffForm = False, editingStaff = None, selectedStaff = None,
      cancellingDiscountId = None, discountingStaff = None, deletingStaffId = None,
      clearingHistoryStaff = None, deleteError = [], console = [], alerts = [],
      save_calls = [], inflight = [], staff_changed = False, load_pending = False\<rparr>"

definition setStaff :: "Staff list \<Rightarrow> state \<Rightarrow> state" where
  "setStaff r st = st\<lparr>staff := r, staff_changed := True\<rparr>"

definition storage_save :: "save_origin \<Rightarrow> Staff list \<Rightarrow> state \<Rightarrow> state" where
  "storage_save origin r st =
     st\<lparr>save_calls := save_calls st @ [(origin, r)], inflight := inflight st @ [(origin, r)]\<rparr>"

definition console_error :: "string \<Rightarrow> js_error \<Rightarrow> state \<Rightarrow> state" where
  "console_error msg err st = st\<lparr>console := console st @ [ConsoleError msg err]\<rparr>"

definition alert :: "string \<Rightarrow> state \<Rightarrow> state" where
  "alert msg st = st\<lparr>alerts := alerts st @ [msg]\<rparr>"

section \<open>Loading and saving\<close>

text \<open>
  \<^verbatim>\<open>loadStaff\<close> (lines 27-37), continued when the promise of \<^verbatim>\<open>storage.staff.load()\<close>
  settles: an array replaces the roster, any other value is ignored, a rejection is
  logged and empties the roster.
\<close>

definition loadStaff :: "load_outcome \<Rightarrow> state \<Rightarrow> state" where
  "loadStaff outcome st =
     (case outcome of
        Fulfilled data \<Rightarrow>
          (case data of LArray members \<Rightarrow> setStaff members st | _ \<Rightarrow> st)
      | Rejected err \<Rightarrow> setStaff [] (console_error ''Error loading staff:'' err st))"

text \<open>
  The effect of lines 42-48, run after a render in which \<^verbatim>\<open>staff\<close> has changed. The model
  runs it after every event that called \<^verbatim>\<open>setStaff\<close>; React leaves it out when the array
  passed is the very array it already holds, so the model has every run React has.
\<close>

definition saveEffect :: "state \<Rightarrow> state" where
  "saveEffect st =
     (if length (staff st) > 0 then storage_save ChangeEffect (staff st) st else st)"

definition runEffects :: "state \<Rightarrow> state" where
  "runEffects st =
     (if staff_changed st then saveEffect (st\<lparr>staff_changed := False\<rparr>) else st)"

section \<open>Handlers\<close>

text \<open>
  Each handler reads the state of the render that created it and calls setters; the model
  takes that state and returns the next one. The clock readings and the password check
  (\<^verbatim>\<open>validateAdminPassword\<close> of \<^verbatim>\<open>utils/passwords\<close>, not among the sources) are parameters.
\<close>

definition newStaff :: "StaffData \<Rightarrow> int \<Rightarrow> Staff" where
  "newStaff staffData now =
     \<lparr>name = name staffData, code = code staffData, profile = profile staffData,
      staff_id = toString now, sales = [], discounts = []\<rparr>"

definition handleAddStaff :: "int \<Rightarrow> StaffData \<Rightarrow> state \<Rightarrow> state" where
  "handleAddStaff now staffData st =
     (setStaff (staff st @ [newStaff staffData now]) st)\<lparr>showStaffForm := False\<rparr>"

text \<open>
  \<^verbatim>\<open>{ ...s, ...staffData }\<close>: the properties of \<^verbatim>\<open>staffData\<close> override those of \<^verbatim>\<open>s\<close>;
  a property that \<^verbatim>\<open>staffData\<close> does not have keeps the value it has in \<^verbatim>\<open>s\<close>.
\<close>

definition spread :: "Staff \<Rightarrow> StaffData \<Rightarrow> Staff" where
  "spread s staffData =
     s\<lparr>name := name staffData, code := code staffData,
       profile := profile s ++ profile staffData\<rparr>"

definition handleEditStaff :: "StaffData \<Rightarrow> state \<Rightarrow> state" where
  "handleEditStaff staffData st =
     (case editingStaff st of
        Some e \<Rightarrow>
          (setStaff (map (\<lambda>s. if staff_id s = staff_id e then spread s staffData else s)
                      (staff st)) st)
            \<lparr>editingStaff := None, showStaffForm := False\<rparr>
      | None \<Rightarrow> st)"

definition handleAddDiscount :: "int \<Rightarrow> string \<Rightarrow> int \<Rightarrow> string \<Rightarrow> state \<Rightarrow> state" where
  "handleAddDiscount now isoDate amt rsn st =
     (case discountingStaff st of
        Some ds \<Rightarrow>
          (let discount = \<lparr>discount_id = toString now, date = isoDate, amount = amt,
                           reason = rsn, status = Active, cancellationReason = None\<rparr>
           in (setStaff (map (\<lambda>s. if staff_id s = staff_id ds
                                    then s\<lparr>discounts := discounts s @ [discount]\<rparr> else s)
                           (staff st)) st)
                \<lparr>discountingStaff := None\<rparr>)
      | None \<Rightarrow> st)"

definition cancelDiscount :: "string \<Rightarrow> string \<Rightarrow> Discount \<Rightarrow> Discount" where
  "cancelDiscount cid rsn d =
     (if discount_id d = cid then d\<lparr>status := Cancelled, cancellationReason := Some rsn\<rparr>
      else d)"

definition handleCancelDiscount :: "string \<Rightarrow> state \<Rightarrow> state" where
  "handleCancelDiscount rsn st =
     (case (cancellingDiscountId st, selectedStaff st) of
        (Some cid, Some sel) \<Rightarrow>
          (if cid \<noteq> [] then
             (setStaff (map (\<lambda>s. if staff_id s = staff_id sel
                                  then s\<lparr>discounts := map (cancelDiscount cid rsn) (discounts s)\<rparr>
                                  else s)
                         (staff st)) st)
               \<lparr>cancellingDiscountId := None\<rparr>
           else st)
      | _ \<Rightarrow> st)"

text \<open>The message \<^verbatim>\<open>Contrasen~a incorrecta\<close>; the n with tilde is two bytes in UTF-8.\<close>

definition wrong_password :: string where
  "wrong_password = ''Contrase'' @ [CHR 0xC3, CHR 0xB1] @ ''a incorrecta''"

definition delete_failed :: string where
  "delete_failed = ''Error al eliminar el colaborador. Por favor intente nuevamente.''"

definition handleDeleteStaff :: "(string \<Rightarrow> bool) \<Rightarrow> string \<Rightarrow> state \<Rightarrow> state" where
  "handleDeleteStaff validateAdminPassword password st =
     (if \<not> validateAdminPassword password then st\<lparr>deleteError := wrong_password\<rparr>
      else
        (case deletingStaffId st of
           Some did \<Rightarrow>
             (if did \<noteq> [] then
                (let updatedStaff = filter (\<lambda>s. staff_id s \<noteq> did) (staff st)
                 in (storage_save (AfterDeletion (staff st)) updatedStaff
                       (setStaff updatedStaff st))
                      \<lparr>deletingStaffId := None, deleteError := []\<rparr>)
              else st)
         | None \<Rightarrow> st))"

definition handleClearHistory :: "(string \<Rightarrow> bool) \<Rightarrow> string \<Rightarrow> state \<Rightarrow> state" where
  "handleClearHistory validateAdminPassword password st =
     (if \<not> validateAdminPassword password then st
      else
        (case clearingHistoryStaff st of
           Some c \<Rightarrow>
             (let updatedStaff =
                    map (\<lambda>s. if staff_id s = staff_id c then s\<lparr>sales := [], discounts := []\<rparr>
                             else s) (staff st)
              in (storage_save AfterClearHistory updatedStaff (setStaff updatedStaff st))
                   \<lparr>clearingHistoryStaff := None\<rparr>)
         | None \<Rightarrow> st))"

definition handleUpdateSale :: "string \<Rightarrow> string \<Rightarrow> bool \<Rightarrow> state \<Rightarrow> state" where
  "handleUpdateSale staffId saleId paid st =
     setStaff
       (map (\<lambda>s. if staff_id s = staffId
                 then s\<lparr>sales := map (\<lambda>sale. if sale_id sale = saleId
                                              then sale\<lparr>commissionPaid := paid\<rparr> else sale)
                                     (sales s)\<rparr>
                 else s)
          (staff st)) st"

text \<open>
  The \<^verbatim>\<open>catch\<close> callbacks of the three calls of \<^verbatim>\<open>storage.staff.save\<close>: the save effect
  logs, the deletion logs, restores the roster it captured and alerts, and the call of
  \<^verbatim>\<open>handleClearHistory\<close> has no callback.
\<close>

definition onSaveRejected :: "save_origin \<Rightarrow> js_error \<Rightarrow> state \<Rightarrow> state" where
  "onSaveRejected origin err st =
     (case origin of
        ChangeEffect \<Rightarrow> console_error ''Error saving staff:'' err st
      | AfterDeletion staff0 \<Rightarrow>
          alert delete_failed
            (setStaff staff0 (console_error ''Error saving staff after deletion:'' err st))
      | AfterClearHistory \<Rightarrow> st)"

section \<open>The component as a transition system\<close>

text \<open>
  The events are the settling of a promise and the callbacks that the rendered tree hands
  to its children (lines 167-257). A callback exists only while its element is rendered.
\<close>

datatype event =
    LoadSettled load_outcome
  | SaveSettled nat "js_error option"
  | ClickNew
  | OnEdit Staff
  | OnDelete string
  | OnViewHistory Staff
  | OnAddDiscount Staff
  | OnClearHistory Staff
  | FormSubmit int StaffData
  | FormClose
  | HistoryUpdateSale string bool
  | HistoryCancelDiscount string
  | HistoryClose
  | AddDiscountConfirm int string int string
  | AddDiscountClose
  | CancelDiscountConfirm string
  | CancelDiscountClose
  | DeleteConfirm string
  | DeleteClose
  | ClearHistoryConfirm string
  | ClearHistoryClose

text \<open>Mounting runs both effects: the load is started, the save effect sees the roster.\<close>

definition mount :: "state \<Rightarrow> state" where
  "mount st = saveEffect (st\<lparr>load_pending := True\<rparr>)"

definition settleSave :: "nat \<Rightarrow> js_error option \<Rightarrow> state \<Rightarrow> state" where
  "settleSave i outcome st =
     (if i < length (inflight st) then
        (let origin = fst (inflight st ! i);
             st' = st\<lparr>inflight := take i (inflight st) @ drop (Suc i) (inflight st)\<rparr>
         in case outcome of None \<Rightarrow> st' | Some err \<Rightarrow> onSaveRejected origin err st')
      else st)"

fun dispatch :: "(string \<Rightarrow> bool) \<Rightarrow> event \<Rightarrow> state \<Rightarrow> state" where
  "dispatch v (LoadSettled outcome) st =
     (if load_pending st then loadStaff outcome (st\<lparr>load_pending := False\<rparr>) else st)"
| "dispatch v (SaveSettled i outcome) st = settleSave i outcome st"
| "dispatch v ClickNew st = st\<lparr>editingStaff := None, showStaffForm := True\<rparr>"
| "dispatch v (OnEdit member) st =
     (if length (staff st) > 0 then st\<lparr>editingStaff := Some member, showStaffForm := True\<rparr>
      else st)"
| "dispatch v (OnDelete staffId) st =
     (if length (staff st) > 0 then st\<lparr>deletingStaffId := Some staffId\<rparr> else st)"
| "dispatch v (OnViewHistory member) st =
     (if length (staff st) > 0 then st\<lparr>selectedStaff := Some member\<rparr> else st)"
| "dispatch v (OnAddDiscount member) st =
     (if length (staff st) > 0 then st\<lparr>discountingStaff := Some member\<rparr> else st)"
| "dispatch v (OnClearHistory member) st =
     (if length (staff st) > 0 then st\<lparr>clearingHistoryStaff := Some member\<rparr> else st)"
| "dispatch v (FormSubmit now staffData) st =
     (if showStaffForm st then
        (case editingStaff st of
           Some _ \<Rightarrow> handleEditStaff staffData st
         | None \<Rightarrow> handleAddStaff now staffData st)
      else st)"
| "dispatch v FormClose st =
     (if showStaffForm st then st\<lparr>showStaffForm := False, editingStaff := None\<rparr> else st)"
| "dispatch v (HistoryUpdateSale saleId paid) st =
     (case selectedStaff st of
        Some sel \<Rightarrow> handleUpdateSale (staff_id sel) saleId paid st
      | None \<Rightarrow> st)"
| "dispatch v (HistoryCancelDiscount discountId) st =
     (case selectedStaff st of
        Some _ \<Rightarrow> st\<lparr>cancellingDiscountId := Some discountId\<rparr>
      | None \<Rightarrow> st)"
| "dispatch v HistoryClose st =
     (case selectedStaff st of Some _ \<Rightarrow> st\<lparr>selectedStaff := None\<rparr> | None \<Rightarrow> st)"
| "dispatch v (AddDiscountConfirm now isoDate amt rsn) st =
     (case discountingStaff st of
        Some _ \<Rightarrow> handleAddDiscount now isoDate amt rsn st
      | None \<Rightarrow> st)"
| "dispatch v AddDiscountClose st =
     (case discountingStaff st of Some _ \<Rightarrow> st\<lparr>discountingStaff := None\<rparr> | None \<Rightarrow> st)"
| "dispatch v (CancelDiscountConfirm rsn) st =
     (if truthy (cancellingDiscountId st) then handleCancelDiscount rsn st else st)"
| "dispatch v CancelDiscountClose st =
     (if truthy (cancellingDiscountId st) then st\<lparr>cancellingDiscountId := None\<rparr> else st)"
| "dispatch v (DeleteConfirm password) st =
     (if truthy (deletingStaffId st) then handleDeleteStaff v password st else st)"
| "dispatch v DeleteClose st =
     (if truthy (deletingStaffId st) then st\<lparr>deletingStaffId := None, deleteError := []\<rparr>
      else st)"
| "dispatch v (ClearHistoryConfirm password) st =
     (case clearingHistoryStaff st of
        Some _ \<Rightarrow> handleClearHistory v password st
      | None \<Rightarrow> st)"
| "dispatch v ClearHistoryClose st =
     (case clearingHistoryStaff st of
        Some _ \<Rightarrow> st\<lparr>clearingHistoryStaff := None\<rparr>
      | None \<Rightarrow> st)"

text \<open>One event, then the re-render with its effects.\<close>

definition step :: "(string \<Rightarrow> bool) \<Rightarrow> event \<Rightarrow> state \<Rightarrow> state" where
  "step v ev st = runEffects (dispatch v ev st)"

fun run :: "(string \<Rightarrow> bool) \<Rightarrow> event list \<Rightarrow> state \<Rightarrow> state" where
  "run v [] st = st"
| "run v (ev # evs) st = run v evs (step v ev st)"

section \<open>Object identity\<close>






section \<open>Example values\<close>

definition validate_example :: "string \<Rightarrow> bool" where
  "validate_example password = (password = ''admin'')"

definition member_example :: "string \<Rightarrow> string \<Rightarrow> string \<Rightarrow> Staff" where
  "member_example i c did =
     \<lparr>name = ''Ana'', code = c, profile = Map.empty, staff_id = i,
      sales = [\<lparr>sale_id = ''s1'', commissionPaid = False, sale_props = Map.empty\<rparr>],
      discounts = [\<lparr>discount_id = did, date = ''2024-01-01T00:00:00.000Z'', amount = 50,
                    reason = ''promo'', status = Active, cancellationReason = None\<rparr>]\<rparr>"

definition data_example :: StaffData where
  "data_example = \<lparr>name = ''Eva'', code = ''E9'', profile = Map.empty\<rparr>"

definition state_example :: state where
  "state_example =
     initial\<lparr>staff := [member_example ''1'' ''A1'' ''d1'', member_example ''2'' ''B2'' ''d2''],
             editingStaff := Some (member_example ''1'' ''A1'' ''d1''),
             selectedStaff := Some (member_example ''1'' ''A1'' ''d1''),
             cancellingDiscountId := Some ''d1'',
             discountingStaff := Some (member_example ''1'' ''A1'' ''d1''),
             deletingStaffId := Some ''1'',
             clearingHistoryStaff := Some (member_example ''1'' ''A1'' ''d1'')\<rparr>"


text \<open>A run: the stored roster of one member arrives, the member is deleted.\<close>

definition events_example :: "event list" where
  "events_example =
     [LoadSettled (Fulfilled (LArray [member_example ''1'' ''A1'' ''d1''])),
      OnDelete ''1'', DeleteConfirm ''admin'']"

section \<open>What the handlers do to the roster\<close>

lemma staff_handleClearHistory:
  "staff (handleClearHistory v p st) =
     (case clearingHistoryStaff st of
        Some c \<Rightarrow>
          if v p then map (\<lambda>s. if staff_id s = staff_id c then s\<lparr>sales := [], discounts := []\<rparr>
                                 else s) (staff st)
          else staff st
      | None \<Rightarrow> staff st)"
  by (simp add: handleClearHistory_def setStaff_def storage_save_def Let_def
           split: option.splits)

section \<open>Adding a member\<close>

text \<open>
  C7. \<^verbatim>\<open>handleAddStaff\<close> yields a roster that is longer by exactly one: the old roster,
  unchanged, followed by a new member whose \<^verbatim>\<open>sales\<close> and \<^verbatim>\<open>discounts\<close> are empty, whose id
  is the decimal string of the clock and whose other fields are the submitted ones.
\<close>

theorem handleAddStaff_appends:
  "length (staff (handleAddStaff now staffData st)) = length (staff st) + 1
   \<and> butlast (staff (handleAddStaff now staffData st)) = staff st
   \<and> sales (last (staff (handleAddStaff now staffData st))) = []
   \<and> discounts (last (staff (handleAddStaff now staffData st))) = []
   \<and> staff_id (last (staff (handleAddStaff now staffData st))) = toString now
   \<and> name (last (staff (handleAddStaff now staffData st))) = name staffData
   \<and> code (last (staff (handleAddStaff now staffData st))) = code staffData
   \<and> profile (last (staff (handleAddStaff now staffData st))) = profile staffData"
  by (simp add: handleAddStaff_def setStaff_def newStaff_def)

theorem handleAddStaff_appends_witness:
  "length (staff (handleAddStaff 5 data_example state_example)) = 3
   \<and> butlast (staff (handleAddStaff 5 data_example state_example)) = staff state_example
   \<and> sales (last (staff (handleAddStaff 5 data_example state_example))) = []
   \<and> discounts (last (staff (handleAddStaff 5 data_example state_example))) = []"
  using handleAddStaff_appends [of 5 data_example state_example]
  by (simp add: state_example_def initial_def)

section \<open>Clearing a member's history\<close>

text \<open>
  C6. With a password that \<^verbatim>\<open>validateAdminPassword\<close> rejects, \<^verbatim>\<open>handleClearHistory\<close>
  returns at once: the whole state is as before, so the roster, the pending clear-history
  selection, the error message, the console and the alerts are unchanged. The delete flow
  on the same password records a non-empty error message.
\<close>

theorem clearHistory_wrong_password_silent:
  "\<not> validateAdminPassword password \<Longrightarrow>
     handleClearHistory validateAdminPassword password st = st
     \<and> staff (handleClearHistory validateAdminPassword password st) = staff st
     \<and> clearingHistoryStaff (handleClearHistory validateAdminPassword password st)
         = clearingHistoryStaff st
     \<and> deleteError (handleClearHistory validateAdminPassword password st) = deleteError st
     \<and> console (handleClearHistory validateAdminPassword password st) = console st
     \<and> alerts (handleClearHistory validateAdminPassword password st) = alerts st
     \<and> deleteError (handleDeleteStaff validateAdminPassword password st) \<noteq> []"
  by (simp add: handleClearHistory_def handleDeleteStaff_def wrong_password_def)

theorem clearHistory_wrong_password_silent_witness:
  "\<not> validate_example ''guess''
   \<and> clearingHistoryStaff state_example = Some (member_example ''1'' ''A1'' ''d1'')
   \<and> handleClearHistory validate_example ''guess'' state_example = state_example
   \<and> deleteError (handleClearHistory validate_example ''guess'' state_example) = []
   \<and> deleteError (handleDeleteStaff validate_example ''guess'' state_example) \<noteq> []"
proof -
  have h: "\<not> validate_example ''guess''" by (simp add: validate_example_def)
  show ?thesis
    using h clearHistory_wrong_password_silent [of validate_example "''guess''" state_example]
    by (simp add: state_example_def initial_def)
qed



section \<open>Deleting a member\<close>

lemma staff_handleDeleteStaff:
  "staff (handleDeleteStaff v p st) =
     (case deletingStaffId st of
        Some did \<Rightarrow>
          if v p \<and> did \<noteq> [] then filter (\<lambda>s. staff_id s \<noteq> did) (staff st) else staff st
      | None \<Rightarrow> staff st)"
  by (simp add: handleDeleteStaff_def setStaff_def storage_save_def Let_def
           split: option.splits)




section \<open>Cancelling a discount\<close>

lemma staff_handleCancelDiscount:
  "staff (handleCancelDiscount rsn st) =
     (case (cancellingDiscountId st, selectedStaff st) of
        (Some cid, Some sel) \<Rightarrow>
          if cid \<noteq> [] then
            map (\<lambda>s. if staff_id s = staff_id sel
                      then s\<lparr>discounts := map (cancelDiscount cid rsn) (discounts s)\<rparr> else s)
              (staff st)
          else staff st
      | _ \<Rightarrow> staff st)"
  by (simp add: handleCancelDiscount_def setStaff_def split: option.splits)



section \<open>A failed save after a deletion\<close>

lemma inflight_handleDeleteStaff:
  "v p \<Longrightarrow> deletingStaffId st = Some d \<Longrightarrow> d \<noteq> [] \<Longrightarrow>
     inflight (handleDeleteStaff v p st)
       = inflight st @ [(AfterDeletion (staff st), filter (\<lambda>s. staff_id s \<noteq> d) (staff st))]"
  by (simp add: handleDeleteStaff_def setStaff_def storage_save_def Let_def)

lemma save_calls_handleDeleteStaff:
  "v p \<Longrightarrow> deletingStaffId st = Some d \<Longrightarrow> d \<noteq> [] \<Longrightarrow>
     save_calls (handleDeleteStaff v p st)
       = save_calls st @ [(AfterDeletion (staff st), filter (\<lambda>s. staff_id s \<noteq> d) (staff st))]"
  by (simp add: handleDeleteStaff_def setStaff_def storage_save_def Let_def)

lemma settleSave_rejected_deletion:
  assumes "i < length (inflight st2)" and "fst (inflight st2 ! i) = AfterDeletion r0"
  shows "staff (settleSave i (Some err) st2) = r0"
    and "alerts (settleSave i (Some err) st2) = alerts st2 @ [delete_failed]"
    and "console (settleSave i (Some err) st2)
           = console st2 @ [ConsoleError ''Error saving staff after deletion:'' err]"
  using assms
  by (simp_all add: settleSave_def onSaveRejected_def alert_def setStaff_def console_error_def
        Let_def)

lemma staff_runEffects: "staff (runEffects st) = staff st"
  by (simp add: runEffects_def saveEffect_def storage_save_def)

lemma alerts_runEffects: "alerts (runEffects st) = alerts st"
  by (simp add: runEffects_def saveEffect_def storage_save_def)

text \<open>
  C2. When \<^verbatim>\<open>handleDeleteStaff\<close> deletes (accepted password, truthy pending id), it issues
  one call of \<^verbatim>\<open>storage.staff.save\<close> whose \<^verbatim>\<open>catch\<close> closure holds the roster before the
  deletion. If that promise is rejected, at once or in any later state in which it is
  still in flight, the roster state becomes exactly the roster before the deletion and the
  alert is raised. (That the alert blocks is a property of the browser's \<^verbatim>\<open>alert\<close>; the
  model records the call.)
\<close>

theorem delete_save_failure_rolls_back:
  assumes "validateAdminPassword password" and "deletingStaffId st = Some d" and "d \<noteq> []"
  shows "save_calls (handleDeleteStaff validateAdminPassword password st)
           = save_calls st @ [(AfterDeletion (staff st), filter (\<lambda>s. staff_id s \<noteq> d) (staff st))]
    \<and> inflight (handleDeleteStaff validateAdminPassword password st)
           = inflight st @ [(AfterDeletion (staff st), filter (\<lambda>s. staff_id s \<noteq> d) (staff st))]
    \<and> staff (settleSave (length (inflight st)) (Some err)
               (handleDeleteStaff validateAdminPassword password st)) = staff st
    \<and> alerts (settleSave (length (inflight st)) (Some err)
               (handleDeleteStaff validateAdminPassword password st)) = alerts st @ [delete_failed]
    \<and> (\<forall>later i. i < length (inflight later)
            \<and> fst (inflight later ! i) = AfterDeletion (staff st) \<longrightarrow>
          staff (settleSave i (Some err) later) = staff st
        \<and> staff (step validateAdminPassword (SaveSettled i (Some err)) later) = staff st
        \<and> alerts (settleSave i (Some err) later) = alerts later @ [delete_failed])"
proof -
  let ?st1 = "handleDeleteStaff validateAdminPassword password st"
  have infl: "inflight ?st1
      = inflight st @ [(AfterDeletion (staff st), filter (\<lambda>s. staff_id s \<noteq> d) (staff st))]"
    using assms by (rule inflight_handleDeleteStaff)
  have calls: "save_calls ?st1
      = save_calls st @ [(AfterDeletion (staff st), filter (\<lambda>s. staff_id s \<noteq> d) (staff st))]"
    using assms by (rule save_calls_handleDeleteStaff)
  have alerts1: "alerts ?st1 = alerts st"
    using assms by (simp add: handleDeleteStaff_def setStaff_def storage_save_def Let_def)
  have idx: "length (inflight st) < length (inflight ?st1)"
    and at: "fst (inflight ?st1 ! length (inflight st)) = AfterDeletion (staff st)"
    by (simp_all add: infl)
  have now: "staff (settleSave (length (inflight st)) (Some err) ?st1) = staff st"
    "alerts (settleSave (length (inflight st)) (Some err) ?st1) = alerts st @ [delete_failed]"
    using settleSave_rejected_deletion(1,2) [OF idx at] by (simp_all add: alerts1)
  have later: "staff (settleSave i (Some err) later) = staff st
        \<and> staff (step validateAdminPassword (SaveSettled i (Some err)) later) = staff st
        \<and> alerts (settleSave i (Some err) later) = alerts later @ [delete_failed]"
    if "i < length (inflight later) \<and> fst (inflight later ! i) = AfterDeletion (staff st)"
    for later i
    using that settleSave_rejected_deletion(1,2) [of i later "staff st" err]
    by (simp add: step_def staff_runEffects)
  from infl calls now later show ?thesis by blast
qed

theorem delete_save_failure_rolls_back_witness:
  "validate_example ''admin''
   \<and> deletingStaffId state_example = Some ''1''
   \<and> staff state_example = [member_example ''1'' ''A1'' ''d1'', member_example ''2'' ''B2'' ''d2'']
   \<and> inflight state_example = []
   \<and> staff (handleDeleteStaff validate_example ''admin'' state_example)
       = [member_example ''2'' ''B2'' ''d2'']
   \<and> staff (settleSave 0 (Some ''quota exceeded'')
              (handleDeleteStaff validate_example ''admin'' state_example))
       = [member_example ''1'' ''A1'' ''d1'', member_example ''2'' ''B2'' ''d2'']
   \<and> alerts (settleSave 0 (Some ''quota exceeded'')
              (handleDeleteStaff validate_example ''admin'' state_example)) = [delete_failed]"
proof -
  have v: "validate_example ''admin''" by (simp add: validate_example_def)
  have d: "deletingStaffId state_example = Some ''1''"
    and s: "staff state_example
              = [member_example ''1'' ''A1'' ''d1'', member_example ''2'' ''B2'' ''d2'']"
    and i: "inflight state_example = []"
    and a: "alerts state_example = []"
    by (simp_all add: state_example_def initial_def)
  have n: "''1'' \<noteq> []" by simp
  have del: "staff (handleDeleteStaff validate_example ''admin'' state_example)
       = [member_example ''2'' ''B2'' ''d2'']"
    using v by (simp add: handleDeleteStaff_def setStaff_def storage_save_def Let_def d s
          member_example_def)
  from delete_save_failure_rolls_back
         [of validate_example "''admin''" state_example "''1''" "''quota exceeded''", OF v d n]
  show ?thesis using v d del by (simp add: s i a)
qed

section \<open>Loading on mount\<close>

lemma mount_initial: "mount initial = initial\<lparr>load_pending := True\<rparr>"
  by (simp add: mount_def saveEffect_def initial_def)

lemma loadStaff_not_array: "\<not> isArray data \<Longrightarrow> loadStaff (Fulfilled data) st = st"
  by (cases data) (simp_all add: loadStaff_def)

text \<open>
  C8 (amended). When \<^verbatim>\<open>storage.staff.load()\<close> delivers a value that is not an array,
  \<^verbatim>\<open>loadStaff\<close> leaves the state as it is and logs nothing: on mount the roster stays the
  initial empty roster and the console stays empty. When the load fails, the roster is set
  to the empty roster and the error is logged.
\<close>

theorem loadStaff_fallback:
  "(\<not> isArray data \<longrightarrow>
       loadStaff (Fulfilled data) st = st
     \<and> staff (step v (LoadSettled (Fulfilled data)) (mount initial)) = []
     \<and> console (step v (LoadSettled (Fulfilled data)) (mount initial)) = [])
   \<and> staff (loadStaff (Rejected err) st) = []
   \<and> console (loadStaff (Rejected err) st) = console st @ [ConsoleError ''Error loading staff:'' err]
   \<and> staff (step v (LoadSettled (Rejected err)) (mount initial)) = []
   \<and> console (step v (LoadSettled (Rejected err)) (mount initial))
       = [ConsoleError ''Error loading staff:'' err]"
proof -
  have a: "loadStaff (Fulfilled data) st = st
     \<and> staff (step v (LoadSettled (Fulfilled data)) (mount initial)) = []
     \<and> console (step v (LoadSettled (Fulfilled data)) (mount initial)) = []"
    if "\<not> isArray data"
    using that
    by (simp add: loadStaff_not_array step_def mount_initial runEffects_def)
       (simp add: initial_def)
  have b: "staff (loadStaff (Rejected err) st) = []
   \<and> console (loadStaff (Rejected err) st) = console st @ [ConsoleError ''Error loading staff:'' err]"
    by (simp add: loadStaff_def setStaff_def console_error_def)
  have c: "staff (step v (LoadSettled (Rejected err)) (mount initial)) = []
   \<and> console (step v (LoadSettled (Rejected err)) (mount initial))
       = [ConsoleError ''Error loading staff:'' err]"
    by (simp add: step_def mount_initial runEffects_def saveEffect_def loadStaff_def setStaff_def
          console_error_def)
       (simp add: initial_def)
  from a b c show ?thesis by blast
qed

theorem loadStaff_fallback_witness:
  "\<not> isArray (LObject [(''version'', JNumber 2)])
   \<and> loadStaff (Fulfilled (LObject [(''version'', JNumber 2)])) state_example = state_example
   \<and> staff (step validate_example (LoadSettled (Fulfilled (LObject [(''version'', JNumber 2)])))
              (mount initial)) = []
   \<and> staff (loadStaff (Rejected ''unavailable'') state_example) = []
   \<and> console (step validate_example (LoadSettled (Rejected ''unavailable'')) (mount initial))
       = [ConsoleError ''Error loading staff:'' ''unavailable'']"
  using loadStaff_fallback
    [of "LObject [(''version'', JNumber 2)]" state_example validate_example "''unavailable''"]
  by simp

text \<open>
  The claim as written has the anomaly logged for a value that is not a list. The branch
  \<^verbatim>\<open>if (Array.isArray(data))\<close> has no \<^verbatim>\<open>else\<close>: for \<^verbatim>\<open>null\<close> the console stays empty.
\<close>

theorem loadStaff_not_array_silent_counterexample:
  "\<not> isArray LNull
   \<and> staff (step validate_example (LoadSettled (Fulfilled LNull)) (mount initial)) = []
   \<and> console (step validate_example (LoadSettled (Fulfilled LNull)) (mount initial)) = []"
  by (simp add: step_def mount_initial runEffects_def loadStaff_def)
     (simp add: initial_def)

section \<open>Distinct ids\<close>

lemma staff_handleAddStaff:
  "staff (handleAddStaff now staffData st) = staff st @ [newStaff staffData now]"
  by (simp add: handleAddStaff_def setStaff_def)

lemma staff_handleEditStaff:
  "staff (handleEditStaff staffData st) =
     (case editingStaff st of
        Some e \<Rightarrow> map (\<lambda>s. if staff_id s = staff_id e then spread s staffData else s) (staff st)
      | None \<Rightarrow> staff st)"
  by (simp add: handleEditStaff_def setStaff_def split: option.splits)

lemma staff_handleAddDiscount:
  "staff (handleAddDiscount now isoDate amt rsn st) =
     (case discountingStaff st of
        Some ds \<Rightarrow>
          map (\<lambda>s. if staff_id s = staff_id ds
                    then s\<lparr>discounts := discounts s @
                            [\<lparr>discount_id = toString now, date = isoDate, amount = amt,
                              reason = rsn, status = Active, cancellationReason = None\<rparr>]\<rparr>
                    else s) (staff st)
      | None \<Rightarrow> staff st)"
  by (simp add: handleAddDiscount_def setStaff_def Let_def split: option.splits)

lemma map_id_replace:
  "(\<And>s. staff_id (f s) = staff_id s) \<Longrightarrow>
     map staff_id (map (\<lambda>s. if P s then f s else s) xs) = map staff_id xs"
  by (induction xs) simp_all

lemma ids_handleEditStaff:
  "map staff_id (staff (handleEditStaff staffData st)) = map staff_id (staff st)"
  by (simp add: staff_handleEditStaff spread_def map_id_replace split: option.splits)

lemma ids_handleAddDiscount:
  "map staff_id (staff (handleAddDiscount now isoDate amt rsn st)) = map staff_id (staff st)"
  by (simp add: staff_handleAddDiscount map_id_replace split: option.splits)

lemma ids_handleCancelDiscount:
  "map staff_id (staff (handleCancelDiscount rsn st)) = map staff_id (staff st)"
  by (simp add: staff_handleCancelDiscount map_id_replace split: option.splits)

lemma ids_handleClearHistory:
  "map staff_id (staff (handleClearHistory v p st)) = map staff_id (staff st)"
  by (simp add: staff_handleClearHistory map_id_replace split: option.splits)

lemma ids_handleUpdateSale:
  "map staff_id (staff (handleUpdateSale staffId saleId paid st)) = map staff_id (staff st)"
  by (simp add: handleUpdateSale_def setStaff_def map_id_replace)

lemma ids_handleDeleteStaff:
  "distinct (map staff_id (staff st)) \<Longrightarrow>
     distinct (map staff_id (staff (handleDeleteStaff v p st)))"
  by (simp add: staff_handleDeleteStaff distinct_map_filter split: option.splits)

text \<open>
  C10 (amended). On a roster whose member ids are pairwise distinct, \<^verbatim>\<open>handleAddStaff\<close>
  yields pairwise distinct ids exactly when the decimal string of the clock value is not
  already the id of a member; the other handlers that update the roster keep the ids
  pairwise distinct for every input.
\<close>

theorem ids_distinct_preserved:
  assumes "distinct (map staff_id (staff st))"
  shows "distinct (map staff_id (staff (handleAddStaff now staffData st)))
           = (toString now \<notin> staff_id ` set (staff st))
    \<and> distinct (map staff_id (staff (handleEditStaff staffData st)))
    \<and> distinct (map staff_id (staff (handleAddDiscount now isoDate amt rsn st)))
    \<and> distinct (map staff_id (staff (handleCancelDiscount rsn st)))
    \<and> distinct (map staff_id (staff (handleDeleteStaff v p st)))
    \<and> distinct (map staff_id (staff (handleClearHistory v p st)))
    \<and> distinct (map staff_id (staff (handleUpdateSale staffId saleId paid st)))"
proof -
  have "distinct (map staff_id (staff (handleAddStaff now staffData st)))
           = (toString now \<notin> staff_id ` set (staff st))"
    using assms by (simp add: staff_handleAddStaff newStaff_def)
  moreover note ids_handleDeleteStaff [OF assms, of v p]
  ultimately show ?thesis
    using assms
    by (simp add: ids_handleEditStaff ids_handleAddDiscount ids_handleCancelDiscount
          ids_handleClearHistory ids_handleUpdateSale)
qed

theorem ids_distinct_preserved_witness:
  "distinct (map staff_id (staff state_example))
   \<and> toString 5 \<notin> staff_id ` set (staff state_example)
   \<and> distinct (map staff_id (staff (handleAddStaff 5 data_example state_example)))
   \<and> distinct (map staff_id (staff (handleDeleteStaff validate_example ''admin'' state_example)))"
proof -
  have s: "map staff_id (staff state_example) = [''1'', ''2'']"
    by (simp add: state_example_def initial_def member_example_def)
  have d: "distinct (map staff_id (staff state_example))" by (simp add: s)
  have t: "toString 5 = ''5''" by code_simp
  have f: "toString 5 \<notin> staff_id ` set (staff state_example)"
    using s by (simp add: t flip: set_map)
  from ids_distinct_preserved [OF d, of 5 data_example]
  show ?thesis using d f by simp
qed

text \<open>
  The claim as written, for every clock value, fails when the clock reads the same
  millisecond twice: the second member gets the id of the first.
\<close>

theorem handleAddStaff_same_clock_counterexample:
  "distinct (map staff_id (staff (handleAddStaff 5 data_example initial)))
   \<and> \<not> distinct (map staff_id
          (staff (handleAddStaff 5 data_example (handleAddStaff 5 data_example initial))))"
  by (simp add: staff_handleAddStaff newStaff_def initial_def)

section \<open>What the save effect persists\<close>

lemma save_calls_saveEffect:
  "save_calls (saveEffect st) =
     (if staff st = [] then save_calls st else save_calls st @ [(ChangeEffect, staff st)])"
  by (simp add: saveEffect_def storage_save_def)

lemma save_calls_runEffects:
  "save_calls (runEffects st) =
     (if staff_changed st \<and> staff st \<noteq> [] then save_calls st @ [(ChangeEffect, staff st)]
      else save_calls st)"
  by (simp add: runEffects_def saveEffect_def storage_save_def)

lemma save_calls_loadStaff: "save_calls (loadStaff outcome st) = save_calls st"
  by (simp add: loadStaff_def setStaff_def console_error_def
        split: load_outcome.splits loaded_value.splits)

lemma save_calls_settleSave: "save_calls (settleSave i outcome st) = save_calls st"
  by (simp add: settleSave_def onSaveRejected_def alert_def setStaff_def console_error_def Let_def
        split: option.splits save_origin.splits)

lemma save_calls_handleAddStaff: "save_calls (handleAddStaff now staffData st) = save_calls st"
  by (simp add: handleAddStaff_def setStaff_def)

lemma save_calls_handleEditStaff: "save_calls (handleEditStaff staffData st) = save_calls st"
  by (simp add: handleEditStaff_def setStaff_def split: option.splits)

lemma save_calls_handleAddDiscount:
  "save_calls (handleAddDiscount now isoDate amt rsn st) = save_calls st"
  by (simp add: handleAddDiscount_def setStaff_def Let_def split: option.splits)

lemma save_calls_handleCancelDiscount: "save_calls (handleCancelDiscount rsn st) = save_calls st"
  by (simp add: handleCancelDiscount_def setStaff_def split: option.splits)

lemma save_calls_handleUpdateSale:
  "save_calls (handleUpdateSale staffId saleId paid st) = save_calls st"
  by (simp add: handleUpdateSale_def setStaff_def)

lemma effect_call_handleDeleteStaff:
  "(ChangeEffect, r) \<in> set (save_calls (handleDeleteStaff v p st))
     \<longleftrightarrow> (ChangeEffect, r) \<in> set (save_calls st)"
  by (simp add: handleDeleteStaff_def setStaff_def storage_save_def Let_def split: option.splits)

lemma effect_call_handleClearHistory:
  "(ChangeEffect, r) \<in> set (save_calls (handleClearHistory v p st))
     \<longleftrightarrow> (ChangeEffect, r) \<in> set (save_calls st)"
  by (simp add: handleClearHistory_def setStaff_def storage_save_def Let_def split: option.splits)

lemma effect_call_dispatch:
  "(ChangeEffect, r) \<in> set (save_calls (dispatch v ev st))
     \<longleftrightarrow> (ChangeEffect, r) \<in> set (save_calls st)"
  by (cases ev)
     (simp_all add: save_calls_loadStaff save_calls_settleSave save_calls_handleAddStaff
        save_calls_handleEditStaff save_calls_handleAddDiscount save_calls_handleCancelDiscount
        save_calls_handleUpdateSale effect_call_handleDeleteStaff effect_call_handleClearHistory
        split: option.splits)

lemma effect_call_step:
  "(ChangeEffect, r) \<in> set (save_calls (step v ev st)) \<Longrightarrow>
     (ChangeEffect, r) \<in> set (save_calls st) \<or> r \<noteq> []"
  by (auto simp: step_def save_calls_runEffects effect_call_dispatch split: if_splits)

lemma effect_call_run:
  "(ChangeEffect, r) \<in> set (save_calls (run v evs st)) \<Longrightarrow>
     (ChangeEffect, r) \<in> set (save_calls st) \<or> r \<noteq> []"
proof (induction evs arbitrary: st)
  case Nil
  then show ?case by simp
next
  case (Cons ev evs)
  from Cons.prems have "(ChangeEffect, r) \<in> set (save_calls (run v evs (step v ev st)))"
    by simp
  then have "(ChangeEffect, r) \<in> set (save_calls (step v ev st)) \<or> r \<noteq> []"
    by (rule Cons.IH)
  then show ?case using effect_call_step by blast
qed

lemma save_calls_mount_initial: "save_calls (mount initial) = []"
  by (simp add: mount_def saveEffect_def initial_def)

text \<open>
  C9. The save effect calls \<^verbatim>\<open>storage.staff.save\<close> only when the roster is non-empty. So in
  every state the component reaches from its mount, by any sequence of events, every call
  recorded for the save effect carries a non-empty roster, and a call that carries the
  empty roster was issued by \<^verbatim>\<open>handleDeleteStaff\<close> or by \<^verbatim>\<open>handleClearHistory\<close>.
\<close>

theorem change_effect_never_saves_empty:
  "save_calls (saveEffect st) =
     (if length (staff st) > 0 then save_calls st @ [(ChangeEffect, staff st)] else save_calls st)
   \<and> (\<forall>origin r. (origin, r) \<in> set (save_calls (run v evs (mount initial))) \<longrightarrow>
         (origin = ChangeEffect \<longrightarrow> r \<noteq> [])
       \<and> (r = [] \<longrightarrow> origin = AfterClearHistory \<or> (\<exists>staff0. origin = AfterDeletion staff0)))"
proof -
  have inv: "r \<noteq> []" if "(ChangeEffect, r) \<in> set (save_calls (run v evs (mount initial)))" for r
    using effect_call_run [OF that] by (simp add: save_calls_mount_initial)
  have "(origin = ChangeEffect \<longrightarrow> r \<noteq> [])
       \<and> (r = [] \<longrightarrow> origin = AfterClearHistory \<or> (\<exists>staff0. origin = AfterDeletion staff0))"
    if "(origin, r) \<in> set (save_calls (run v evs (mount initial)))" for origin r
    using that inv by (cases origin) auto
  then show ?thesis by (simp add: save_calls_saveEffect)
qed

theorem change_effect_never_saves_empty_witness:
  "save_calls (run validate_example events_example (mount initial))
     = [(ChangeEffect, [member_example ''1'' ''A1'' ''d1'']),
        (AfterDeletion [member_example ''1'' ''A1'' ''d1''], [])]
   \<and> [member_example ''1'' ''A1'' ''d1''] \<noteq> []
   \<and> staff (run validate_example events_example (mount initial)) = []"
proof -
  have r: "save_calls (run validate_example events_example (mount initial))
     = [(ChangeEffect, [member_example ''1'' ''A1'' ''d1'']),
        (AfterDeletion [member_example ''1'' ''A1'' ''d1''], [])]
     \<and> staff (run validate_example events_example (mount initial)) = []"
    by (simp add: events_example_def mount_def initial_def step_def runEffects_def saveEffect_def
          storage_save_def loadStaff_def setStaff_def truthy_def handleDeleteStaff_def
          validate_example_def member_example_def Let_def)
  from change_effect_never_saves_empty
         [of "mount initial" validate_example events_example]
  show ?thesis using r by simp
qed

section \<open>Editing a member\<close>











end
